theory Spec2Isabelle
  imports Main "HOL-Library.Sublist"
begin

section \<open>Run-time values\<close>

text \<open>
  \<^verbatim>\<open>fetchData\<close> returns \<^verbatim>\<open>any\<close>: whatever \<^verbatim>\<open>response.json()\<close> decoded. The
  components read fields of these values without checking their shape, so the values are
  modelled as they exist at run time. \<open>JUndefined\<close> is what reading a missing property
  gives. Numbers are the integers (identifiers and counts are all the program computes
  with); a string is its sequence of code units.
\<close>

datatype jsval =
    JUndefined
  | JNull
  | JBool bool
  | JNum int
  | JStr string
  | JArr "jsval list"
  | JObj "(string \<times> jsval) list"

text \<open>
  What can be thrown: \<^verbatim>\<open>new Error(message)\<close> (the only error the repository constructs
  itself), the \<^verbatim>\<open>TypeError\<close> of a property read on \<^verbatim>\<open>null\<close>/\<^verbatim>\<open>undefined\<close>, of a call
  of something that is not a function and of a failed network transfer, and the
  \<^verbatim>\<open>SyntaxError\<close> of \<^verbatim>\<open>response.json()\<close> on a body that is not JSON.
\<close>

datatype error = Error string | TypeError | SyntaxError

text \<open>JavaScript truthiness, as used by \<^verbatim>\<open>||\<close>, \<^verbatim>\<open>!\<close>, \<^verbatim>\<open>? :\<close> and \<^verbatim>\<open>if\<close>.\<close>

fun truthy :: "jsval \<Rightarrow> bool" where
  "truthy JUndefined = False"
| "truthy JNull = False"
| "truthy (JBool b) = b"
| "truthy (JNum n) = (n \<noteq> 0)"
| "truthy (JStr s) = (s \<noteq> [])"
| "truthy (JArr xs) = True"
| "truthy (JObj kvs) = True"

text \<open>\<^verbatim>\<open>a || b\<close>\<close>

definition or_else :: "jsval \<Rightarrow> jsval \<Rightarrow> jsval" where
  "or_else a b = (if truthy a then a else b)"

text \<open>
  The property read \<^verbatim>\<open>v.k\<close>. It throws on \<^verbatim>\<open>null\<close> and \<^verbatim>\<open>undefined\<close>. The keys the
  program reads are \<^verbatim>\<open>data\<close>, \<^verbatim>\<open>id\<close>, \<^verbatim>\<open>name\<close>, \<^verbatim>\<open>author\<close>, \<^verbatim>\<open>status\<close>, \<^verbatim>\<open>title\<close> and
  \<^verbatim>\<open>content\<close>: none of them is a property of a boolean, a number, a string or an array,
  so the read gives \<^verbatim>\<open>undefined\<close> there.
\<close>

fun get_prop :: "jsval \<Rightarrow> string \<Rightarrow> error + jsval" where
  "get_prop JUndefined k = Inl TypeError"
| "get_prop JNull k = Inl TypeError"
| "get_prop (JObj kvs) k = Inr (case map_of kvs k of None \<Rightarrow> JUndefined | Some v \<Rightarrow> v)"
| "get_prop v k = Inr JUndefined"

text \<open>The optional read \<^verbatim>\<open>v?.k\<close>: \<^verbatim>\<open>undefined\<close> instead of throwing.\<close>

definition opt_prop :: "jsval \<Rightarrow> string \<Rightarrow> jsval" where
  "opt_prop v k = (case get_prop v k of Inl e \<Rightarrow> JUndefined | Inr x \<Rightarrow> x)"

text \<open>
  Strict equality \<^verbatim>\<open>a === b\<close>. Primitives compare by value. Objects and arrays compare by
  identity; the program only compares a field of one decoded response with a string or
  with a field of another decoded response, which are never the same object.
\<close>

fun strict_eq :: "jsval \<Rightarrow> jsval \<Rightarrow> bool" where
  "strict_eq JUndefined JUndefined = True"
| "strict_eq JNull JNull = True"
| "strict_eq (JBool a) (JBool b) = (a = b)"
| "strict_eq (JNum a) (JNum b) = (a = b)"
| "strict_eq (JStr a) (JStr b) = (a = b)"
| "strict_eq a b = False"

fun join_comma :: "string list \<Rightarrow> string" where
  "join_comma [] = []"
| "join_comma [s] = s"
| "join_comma (s # t # ss) = s @ '','' @ join_comma (t # ss)"

text \<open>
  The string a template literal \<^verbatim>\<open>`${v}`\<close> inserts for a value. How a number prints is
  the platform's business (the shortest digits that read back as the same double, in
  exponent form from \<^verbatim>\<open>1e21\<close>), so the printing of numbers is the parameter \<open>pr\<close>.
\<close>

fun to_string :: "(int \<Rightarrow> string) \<Rightarrow> jsval \<Rightarrow> string" where
  "to_string pr JUndefined = ''undefined''"
| "to_string pr JNull = ''null''"
| "to_string pr (JBool b) = (if b then ''true'' else ''false'')"
| "to_string pr (JNum n) = pr n"
| "to_string pr (JStr s) = s"
| "to_string pr (JArr xs) =
     join_comma (map (\<lambda>x. if x = JUndefined \<or> x = JNull then [] else to_string pr x) xs)"
| "to_string pr (JObj kvs) = ''[object Object]''"

section \<open>The API client: \<^verbatim>\<open>useApi\<close>\<close>

text \<open>\<^verbatim>\<open>RequestInit\<close>, as far as the program uses it: method, headers, body.\<close>

record options =
  req_method :: "string option"
  req_headers :: "string \<rightharpoonup> string"
  req_body :: "string option"

definition no_options :: options where
  "no_options = \<lparr>req_method = None, req_headers = Map.empty, req_body = None\<rparr>"

text \<open>A call \<^verbatim>\<open>fetch(url, init)\<close> of the platform.\<close>

record request =
  url :: string
  init :: options

text \<open>
  What the platform's \<^verbatim>\<open>fetch\<close> settles with: a rejection, or a response with its
  \<^verbatim>\<open>ok\<close> flag, its body as \<^verbatim>\<open>response.text()\<close> gives it and as \<^verbatim>\<open>response.json()\<close>
  decodes it (\<open>None\<close> when the body is not JSON and \<^verbatim>\<open>json()\<close> rejects).
\<close>

record response =
  ok :: bool
  body_text :: string
  body_json :: "jsval option"

datatype fetch_outcome = Rejected error | Responded response

text \<open>
  The surroundings of the program: the runtime configuration, the network (the outcome of
  a request may depend on every request sent before it), \<^verbatim>\<open>JSON.stringify\<close>, and the string
  the platform prints for a number in a template literal such as \<^verbatim>\<open>`blogs/${id}`\<close>.
\<close>

record env =
  apiUrl :: string
  apiKey :: string
  fetch :: "request list \<Rightarrow> request \<Rightarrow> fetch_outcome"
  stringify :: "jsval \<Rightarrow> string"
  number_string :: "int \<Rightarrow> string"

text \<open>
  The state one call of \<^verbatim>\<open>useApi()\<close> owns: its \<^verbatim>\<open>cache\<close> map, and with it the requests
  the instance has handed to \<^verbatim>\<open>fetch\<close> so far, oldest first, so that sending and not
  sending can be told apart. Each component extends this record with its own refs.
\<close>

record api_state =
  cache :: "string \<rightharpoonup> jsval"
  sent :: "request list"

definition default_headers :: "env \<Rightarrow> string \<rightharpoonup> string" where
  "default_headers e = [''Content-Type'' \<mapsto> ''application/json'', ''x-key'' \<mapsto> apiKey e]"

definition make_request :: "env \<Rightarrow> string \<Rightarrow> options \<Rightarrow> request" where
  "make_request e endpoint opts =
     \<lparr>url = apiUrl e @ ''/'' @ endpoint,
      init = opts\<lparr>req_headers := default_headers e ++ req_headers opts\<rparr>\<rparr>"

text \<open>
  \<^verbatim>\<open>fetchData(endpoint, options)\<close>: the settled promise (\<open>Inl\<close> a rejection, \<open>Inr\<close> the
  value) and the state afterwards. An \<^verbatim>\<open>async\<close> function is one step here, from its call
  to its settlement, and the calls of one instance follow one another as a caller sees
  them that awaits each; a response is taken to arrive with its whole body, so that
  \<^verbatim>\<open>response.text()\<close> gives the text.
\<close>

definition fetchData ::
  "env \<Rightarrow> string \<Rightarrow> options \<Rightarrow> 'a api_state_scheme \<Rightarrow> (error + jsval) \<times> 'a api_state_scheme" where
  "fetchData e endpoint opts s =
     (case cache s endpoint of
        Some v \<Rightarrow> (Inr v, s)
      | None \<Rightarrow>
          (let req = make_request e endpoint opts;
               s1 = s\<lparr>sent := sent s @ [req]\<rparr>
           in case fetch e (sent s) req of
                Rejected err \<Rightarrow> (Inl err, s1)
              | Responded r \<Rightarrow>
                  if \<not> ok r then (Inl (Error (body_text r)), s1)
                  else (case body_json r of
                          None \<Rightarrow> (Inl SyntaxError, s1)
                        | Some data \<Rightarrow> (Inr data, s1\<lparr>cache := (cache s1)(endpoint \<mapsto> data)\<rparr>))))"

definition clearCache :: "string \<Rightarrow> 'a api_state_scheme \<Rightarrow> 'a api_state_scheme" where
  "clearCache endpoint s = s\<lparr>cache := (cache s)(endpoint := None)\<rparr>"

section \<open>The list view\<close>

text \<open>
  The refs of the list component, on top of its \<^verbatim>\<open>useApi()\<close> state. \<open>blogPosts\<close> holds
  whatever \<^verbatim>\<open>response.data || []\<close> was; \<open>postToDelete\<close> is \<^verbatim>\<open>number | null\<close>; \<open>console\<close>
  collects the calls of \<^verbatim>\<open>console.error\<close>.
\<close>

record list_state = api_state +
  isLoading :: bool
  isDeleting :: bool
  blogPosts :: jsval
  showConfirmModal :: bool
  postToDelete :: "int option"
  selectedStatus :: string
  console :: "(string \<times> error) list"

text \<open>
  \<^verbatim>\<open>fetchBlogPosts\<close>, in the three pieces the \<^verbatim>\<open>await\<close> cuts it into: what runs before the
  request, what the \<^verbatim>\<open>try\<close>/\<^verbatim>\<open>catch\<close> does with the settled promise, and the \<^verbatim>\<open>finally\<close>.
\<close>

definition fetchBlogPosts_begin :: "list_state \<Rightarrow> list_state" where
  "fetchBlogPosts_begin st = st\<lparr>isLoading := True\<rparr>"

definition fetchBlogPosts_failed :: "error \<Rightarrow> list_state \<Rightarrow> list_state" where
  "fetchBlogPosts_failed err st = st\<lparr>console := console st @ [(''Failed to fetch blog posts:'', err)]\<rparr>"

definition fetchBlogPosts_settle :: "error + jsval \<Rightarrow> list_state \<Rightarrow> list_state" where
  "fetchBlogPosts_settle r st =
     (case r of
        Inl err \<Rightarrow> fetchBlogPosts_failed err st
      | Inr resp \<Rightarrow>
          (case get_prop resp ''data'' of
             Inl err \<Rightarrow> fetchBlogPosts_failed err st
           | Inr d \<Rightarrow> st\<lparr>blogPosts := or_else d (JArr [])\<rparr>))"

definition fetchBlogPosts :: "env \<Rightarrow> list_state \<Rightarrow> list_state" where
  "fetchBlogPosts e st =
     (let (r, s1) = fetchData e ''blogs'' no_options (fetchBlogPosts_begin st)
      in (fetchBlogPosts_settle r s1)\<lparr>isLoading := False\<rparr>)"

text \<open>
  The callback of \<^verbatim>\<open>blogPosts.value.filter\<close>: \<^verbatim>\<open>post.status === selectedStatus.value\<close>, for
  each element in order, stopping at the first element whose property read throws.
\<close>

fun filter_status :: "string \<Rightarrow> jsval list \<Rightarrow> error + jsval list" where
  "filter_status sel [] = Inr []"
| "filter_status sel (post # posts) =
     (case get_prop post ''status'' of
        Inl err \<Rightarrow> Inl err
      | Inr s \<Rightarrow>
          (case filter_status sel posts of
             Inl err \<Rightarrow> Inl err
           | Inr kept \<Rightarrow> Inr (if strict_eq s (JStr sel) then post # kept else kept)))"

text \<open>
  The computed \<^verbatim>\<open>filteredBlogPosts\<close>. It reads the state and writes nothing. A value
  without a \<^verbatim>\<open>filter\<close> method makes the call throw.
\<close>

definition filteredBlogPosts :: "list_state \<Rightarrow> error + jsval" where
  "filteredBlogPosts st =
     (if selectedStatus st = ''all'' then Inr (blogPosts st)
      else (case blogPosts st of
              JArr posts \<Rightarrow> map_sum id JArr (filter_status (selectedStatus st) posts)
            | _ \<Rightarrow> Inl TypeError))"

definition confirmDelete :: "int \<Rightarrow> list_state \<Rightarrow> list_state" where
  "confirmDelete pid st = st\<lparr>postToDelete := Some pid, showConfirmModal := True\<rparr>"

definition cancelDelete :: "list_state \<Rightarrow> list_state" where
  "cancelDelete st = st\<lparr>showConfirmModal := False, postToDelete := None\<rparr>"

text \<open>\<^verbatim>\<open>if (postToDelete.value)\<close>: neither \<^verbatim>\<open>null\<close> nor \<^verbatim>\<open>0\<close>.\<close>

definition pending_target :: "list_state \<Rightarrow> int option" where
  "pending_target st =
     (case postToDelete st of None \<Rightarrow> None | Some pid \<Rightarrow> if pid = 0 then None else Some pid)"

definition delete_options :: options where
  "delete_options = \<lparr>req_method = Some ''DELETE'', req_headers = Map.empty, req_body = None\<rparr>"

text \<open>\<^verbatim>\<open>proceedDelete\<close>: the \<^verbatim>\<open>try\<close> body after the awaited DELETE, the \<^verbatim>\<open>catch\<close>, the \<^verbatim>\<open>finally\<close>.\<close>

definition proceedDelete :: "env \<Rightarrow> list_state \<Rightarrow> list_state" where
  "proceedDelete e st =
     (case pending_target st of
        None \<Rightarrow> st
      | Some pid \<Rightarrow>
          (let s1 = st\<lparr>isDeleting := True\<rparr>;
               (r, s2) = fetchData e (''blogs/'' @ number_string e pid) delete_options s1;
               s3 = (case r of
                       Inl err \<Rightarrow> s2\<lparr>console := console s2 @ [(''Failed to delete the post:'', err)]\<rparr>
                     | Inr v \<Rightarrow>
                         (fetchBlogPosts e (clearCache ''blogs'' s2))
                           \<lparr>showConfirmModal := False, postToDelete := None\<rparr>)
           in s3\<lparr>isDeleting := False\<rparr>))"

text \<open>
  \<^verbatim>\<open>content.slice(0, end)\<close>: a negative \<^verbatim>\<open>end\<close> counts from the end of the string, and the
  result is empty when that falls before the start.
\<close>

definition slice0 :: "string \<Rightarrow> int \<Rightarrow> string" where
  "slice0 s end_ix =
     (if end_ix < 0 then take (nat (int (length s) + end_ix)) s else take (nat end_ix) s)"

definition truncateContent :: "string \<Rightarrow> int \<Rightarrow> string" where
  "truncateContent content maxLength =
     (if int (length content) \<le> maxLength then content
      else slice0 content maxLength @ ''...'')"

text \<open>The call with \<^verbatim>\<open>maxLength\<close> left out, as the template makes it.\<close>

definition truncateContent_default :: "string \<Rightarrow> string" where
  "truncateContent_default content = truncateContent content 100"

section \<open>The form\<close>

text \<open>
  \<^verbatim>\<open>BlogPostCreateProps\<close>, the draft behind the form fields. The watcher fills it from
  the loaded post (whose \<^verbatim>\<open>author\<close> is a display name, not an \<^verbatim>\<open>Author\<close>), the inputs
  overwrite it; each field holds whatever was put there.
\<close>

record BlogPostCreateProps =
  title :: jsval
  content :: jsval
  author :: jsval
  status :: jsval

definition blank_form :: BlogPostCreateProps where
  "blank_form =
     \<lparr>title = JStr [], content = JStr [],
      author = JObj [(''id'', JNum 0), (''name'', JStr [])],
      status = JStr ''published''\<rparr>"

text \<open>
  The refs of the form component, on top of its own \<^verbatim>\<open>useApi()\<close> state. \<open>routeId\<close> is
  \<^verbatim>\<open>route.params.id\<close> (absent on the create page); \<open>navigatedTo\<close> records \<^verbatim>\<open>navigateTo\<close>.
\<close>

record form_state = api_state +
  isSubmitting :: bool
  routeId :: "string option"
  authors :: jsval
  currentAuthor :: jsval
  blogPost :: jsval
  errors :: "string list"
  form :: BlogPostCreateProps
  navigatedTo :: "string option"

definition isEditMode :: "form_state \<Rightarrow> bool" where
  "isEditMode st = truthy (opt_prop (blogPost st) ''id'')"

text \<open>The watcher on \<^verbatim>\<open>blogPost\<close>: the draft is replaced as a whole.\<close>

definition form_of_post :: "jsval \<Rightarrow> BlogPostCreateProps" where
  "form_of_post newBlogPost =
     (if truthy newBlogPost then
        \<lparr>title = or_else (opt_prop newBlogPost ''title'') (JStr []),
         content = or_else (opt_prop newBlogPost ''content'') (JStr []),
         author = or_else (opt_prop newBlogPost ''author'') (JObj [(''id'', JNum 0), (''name'', JStr [])]),
         status = or_else (opt_prop newBlogPost ''status'') (JStr ''published'')\<rparr>
      else blank_form)"

text \<open>
  Assigning \<^verbatim>\<open>blogPost.value\<close>: the watcher runs when the value changed. (The component
  assigns it once, in \<^verbatim>\<open>fetchBlogPost\<close>, when it is still \<^verbatim>\<open>null\<close>; the new value is a
  freshly decoded response or \<^verbatim>\<open>null\<close>.) The watcher reads the fields of a truthy value,
  where \<^verbatim>\<open>.\<close> and \<^verbatim>\<open>?.\<close> agree.
\<close>

definition set_blogPost :: "jsval \<Rightarrow> form_state \<Rightarrow> form_state" where
  "set_blogPost v st =
     (if v = blogPost st then st else st\<lparr>blogPost := v, form := form_of_post v\<rparr>)"

definition fetchBlogPost :: "env \<Rightarrow> form_state \<Rightarrow> form_state" where
  "fetchBlogPost e st =
     (case routeId st of
        None \<Rightarrow> st
      | Some rid \<Rightarrow>
          if rid = [] then st
          else (let (r, s1) = fetchData e (''blogs/'' @ rid) no_options st
                in case r of
                     Inl err \<Rightarrow> s1\<lparr>errors := errors s1 @ [''Failed to fetch the blog post.'']\<rparr>
                   | Inr resp \<Rightarrow>
                       (set_blogPost (or_else resp JNull) s1)
                         \<lparr>currentAuthor := or_else (opt_prop resp ''author'') (JStr [])\<rparr>))"

definition fetchAuthors :: "env \<Rightarrow> form_state \<Rightarrow> form_state" where
  "fetchAuthors e st =
     (let (r, s1) = fetchData e ''authors'' no_options st;
          failed = s1\<lparr>errors := errors s1 @ [''Failed to fetch authors.'']\<rparr>
      in case r of
           Inl err \<Rightarrow> failed
         | Inr resp \<Rightarrow>
             (case get_prop resp ''data'' of
                Inl err \<Rightarrow> failed
              | Inr d \<Rightarrow> s1\<lparr>authors := d\<rparr>))"

text \<open>
  \<^verbatim>\<open>authors.value.find(author => author.name === currentAuthor.value)\<close>: the first
  element the callback accepts, \<^verbatim>\<open>undefined\<close> when there is none; it throws where the
  callback throws, and where \<^verbatim>\<open>authors.value\<close> has no \<^verbatim>\<open>find\<close> method.
\<close>

fun find_by_name :: "jsval \<Rightarrow> jsval list \<Rightarrow> error + jsval" where
  "find_by_name cur [] = Inr JUndefined"
| "find_by_name cur (a # as) =
     (case get_prop a ''name'' of
        Inl err \<Rightarrow> Inl err
      | Inr n \<Rightarrow> if strict_eq n cur then Inr a else find_by_name cur as)"

definition selectedAuthor :: "form_state \<Rightarrow> error + jsval" where
  "selectedAuthor st =
     (case authors st of
        JArr as \<Rightarrow> find_by_name (currentAuthor st) as
      | _ \<Rightarrow> Inl TypeError)"

text \<open>\<^verbatim>\<open>selectedAuthor ? selectedAuthor.id : form.value.author.id\<close>\<close>

definition authorId :: "form_state \<Rightarrow> error + jsval" where
  "authorId st =
     (case selectedAuthor st of
        Inl err \<Rightarrow> Inl err
      | Inr sel \<Rightarrow> if truthy sel then get_prop sel ''id'' else get_prop (author (form st)) ''id'')"

definition payload :: "form_state \<Rightarrow> jsval \<Rightarrow> jsval" where
  "payload st aid =
     JObj [(''title'', title (form st)), (''content'', content (form st)),
           (''author_id'', aid), (''status'', status (form st))]"

definition write_options :: "env \<Rightarrow> string \<Rightarrow> jsval \<Rightarrow> options" where
  "write_options e m body =
     \<lparr>req_method = Some m, req_headers = Map.empty, req_body = Some (stringify e body)\<rparr>"

text \<open>
  The \<^verbatim>\<open>catch\<close> of \<^verbatim>\<open>submitForm\<close> looks for \<^verbatim>\<open>error.response.data.errors\<close>. No error that
  can reach it has a \<^verbatim>\<open>response\<close> property: they are the \<^verbatim>\<open>Error\<close> of \<^verbatim>\<open>fetchData\<close> and
  the errors of the runtime.
\<close>

definition response_errors :: "error \<Rightarrow> string list option" where
  "response_errors err = None"

definition submit_catch :: "error \<Rightarrow> form_state \<Rightarrow> form_state" where
  "submit_catch err st =
     (case response_errors err of
        Some es \<Rightarrow> st\<lparr>errors := es\<rparr>
      | None \<Rightarrow> st\<lparr>errors := errors st @ [''An unexpected error occurred. Please try again.'']\<rparr>)"

text \<open>The endpoint and options of the write \<^verbatim>\<open>submitForm\<close> asks \<^verbatim>\<open>fetchData\<close> for.\<close>

definition submit_endpoint :: "env \<Rightarrow> form_state \<Rightarrow> string" where
  "submit_endpoint e st =
     (if isEditMode st then ''blogs/'' @ to_string (number_string e) (opt_prop (blogPost st) ''id'')
      else ''blogs'')"

definition submit_options :: "env \<Rightarrow> form_state \<Rightarrow> jsval \<Rightarrow> options" where
  "submit_options e st aid =
     write_options e (if isEditMode st then ''PUT'' else ''POST'') (payload st aid)"

text \<open>The \<^verbatim>\<open>try\<close> and \<^verbatim>\<open>catch\<close> of \<^verbatim>\<open>submitForm\<close>, entered after the two assignments.\<close>

definition submit_try :: "env \<Rightarrow> form_state \<Rightarrow> form_state" where
  "submit_try e st =
     (case authorId st of
        Inl err \<Rightarrow> submit_catch err st
      | Inr aid \<Rightarrow>
          if \<not> truthy aid then st\<lparr>errors := errors st @ [''Author is required.'']\<rparr>
          else (let (r, s1) = fetchData e (submit_endpoint e st) (submit_options e st aid) st
                in case r of
                     Inl err \<Rightarrow> submit_catch err s1
                   | Inr v \<Rightarrow> s1\<lparr>navigatedTo := Some ''/''\<rparr>))"

definition submitForm :: "env \<Rightarrow> form_state \<Rightarrow> form_state" where
  "submitForm e st =
     (let s1 = st\<lparr>errors := [], isSubmitting := True\<rparr>;
          s2 = submit_try e s1
      in clearCache ''blogs'' (s2\<lparr>isSubmitting := False\<rparr>))"

section \<open>Sequences of API calls, typed posts, and sample surroundings\<close>

text \<open>A caller's use of one \<^verbatim>\<open>useApi()\<close> instance: awaited calls, one after the other.\<close>

datatype api_call = Fetch string options | Clear string

fun run_call :: "env \<Rightarrow> api_call \<Rightarrow> 'a api_state_scheme \<Rightarrow> 'a api_state_scheme" where
  "run_call e (Fetch endpoint opts) s = snd (fetchData e endpoint opts s)"
| "run_call e (Clear endpoint) s = clearCache endpoint s"

definition run_calls :: "env \<Rightarrow> api_call list \<Rightarrow> 'a api_state_scheme \<Rightarrow> 'a api_state_scheme" where
  "run_calls e calls s = fold (run_call e) calls s"

text \<open>
  The type \<^verbatim>\<open>BlogPost\<close> of \<^verbatim>\<open>types/BlogPost.ts\<close> (its fields prefixed, since the draft
  has fields of the same names), and the object a value of that type is at run time.
\<close>

datatype post_status = Published | Unpublished

fun status_name :: "post_status \<Rightarrow> string" where
  "status_name Published = ''published''"
| "status_name Unpublished = ''unpublished''"

record BlogPost =
  post_id :: int
  post_title :: string
  post_content :: string
  post_author :: string
  post_status :: post_status

definition post_json :: "BlogPost \<Rightarrow> jsval" where
  "post_json p =
     JObj [(''id'', JNum (post_id p)), (''title'', JStr (post_title p)),
           (''content'', JStr (post_content p)), (''author'', JStr (post_author p)),
           (''status'', JStr (status_name (post_status p)))]"

definition sample_posts :: "BlogPost list" where
  "sample_posts =
     [\<lparr>post_id = 1, post_title = ''One'', post_content = ''a'', post_author = ''Ann'',
       post_status = Published\<rparr>,
      \<lparr>post_id = 2, post_title = ''Two'', post_content = ''b'', post_author = ''Bob'',
       post_status = Unpublished\<rparr>,
      \<lparr>post_id = 3, post_title = ''Three'', post_content = ''c'', post_author = ''Ann'',
       post_status = Published\<rparr>]"

text \<open>The refs as the components initialise them.\<close>

definition list_init :: list_state where
  "list_init =
     \<lparr>cache = Map.empty, sent = [], isLoading = True, isDeleting = False, blogPosts = JArr [],
      showConfirmModal = False, postToDelete = None, selectedStatus = ''all'', console = []\<rparr>"

definition form_init :: "string option \<Rightarrow> form_state" where
  "form_init rid =
     \<lparr>cache = Map.empty, sent = [], isSubmitting = False, routeId = rid, authors = JArr [],
      currentAuthor = JStr [], blogPost = JNull, errors = [], form = blank_form,
      navigatedTo = None\<rparr>"

text \<open>
  A sample server with one post and one author, which answers by URL whatever the method,
  and a sample server that fails every request.
\<close>

definition sample_post :: jsval where
  "sample_post =
     JObj [(''id'', JNum 5), (''title'', JStr ''Hello''), (''content'', JStr ''First post''),
           (''author'', JStr ''Ann''), (''status'', JStr ''published'')]"

definition sample_author :: jsval where
  "sample_author = JObj [(''id'', JNum 1), (''name'', JStr ''Ann'')]"

definition sample_fetch :: "request list \<Rightarrow> request \<Rightarrow> fetch_outcome" where
  "sample_fetch history req =
     (if url req = ''/api/blogs/5'' then
        Responded \<lparr>ok = True, body_text = ''{post 5}'', body_json = Some sample_post\<rparr>
      else if url req = ''/api/blogs'' then
        Responded \<lparr>ok = True, body_text = ''{posts}'',
                   body_json = Some (JObj [(''data'', JArr [sample_post])])\<rparr>
      else if url req = ''/api/authors'' then
        Responded \<lparr>ok = True, body_text = ''{authors}'',
                   body_json = Some (JObj [(''data'', JArr [sample_author])])\<rparr>
      else Responded \<lparr>ok = False, body_text = ''Not Found'', body_json = None\<rparr>)"

text \<open>
  The sample platform prints an integer by its decimal digits. That is what a template
  literal gives for the integers of magnitude below \<open>2^53\<close>; the samples use the ids 1
  and 5 only.
\<close>

fun digits :: "nat \<Rightarrow> string" where
  "digits n = (if 10 \<le> n then digits (n div 10) else []) @ [''0123456789'' ! (n mod 10)]"

declare digits.simps [simp del]

definition decimal :: "int \<Rightarrow> string" where
  "decimal i = (if 0 \<le> i then digits (nat i) else CHR ''-'' # digits (nat (- i)))"

definition sample_env :: env where
  "sample_env =
     \<lparr>apiUrl = ''/api'', apiKey = ''secret'', fetch = sample_fetch, stringify = (\<lambda>v. ''{...}''),
      number_string = decimal\<rparr>"

definition failing_env :: env where
  "failing_env =
     sample_env\<lparr>fetch := (\<lambda>history req. Responded \<lparr>ok = False, body_text = ''Server Error'', body_json = None\<rparr>)\<rparr>"

text \<open>
  The create page with the author list loaded, a title and a text typed in and the sample
  author chosen in the select; the same page with nothing chosen; and the edit page of
  post 5 once both of its loads are done.
\<close>

definition create_page :: form_state where
  "create_page = (form_init None)\<lparr>authors := JArr [sample_author]\<rparr>"

definition create_draft :: form_state where
  "create_draft =
     create_page\<lparr>form := blank_form\<lparr>title := JStr ''New'', content := JStr ''Text'',
                                         author := sample_author\<rparr>\<rparr>"

definition edit_page :: "env \<Rightarrow> form_state" where
  "edit_page e = fetchAuthors e (fetchBlogPost e (form_init (Some ''5'')))"

text \<open>The edit page of post 5 on the sample server, with the title changed in the input.\<close>

definition edited_page :: form_state where
  "edited_page =
     (edit_page sample_env)\<lparr>form := (form (edit_page sample_env))\<lparr>title := JStr ''Changed''\<rparr>\<rparr>"

section \<open>Properties of the API client\<close>

lemmas api_defs = fetchData_def clearCache_def make_request_def default_headers_def Let_def

lemmas sample_defs = sample_env_def sample_fetch_def failing_env_def sample_post_def
  sample_author_def list_init_def form_init_def blank_form_def no_options_def delete_options_def
  create_page_def create_draft_def

lemma fetchData_hit:
  "cache s E = Some v \<Longrightarrow> fetchData e E opts s = (Inr v, s)"
  by (simp add: fetchData_def)

lemma fetchData_miss:
  "cache s E = None \<Longrightarrow>
   fetchData e E opts s =
     (case fetch e (sent s) (make_request e E opts) of
        Rejected err \<Rightarrow> (Inl err, s\<lparr>sent := sent s @ [make_request e E opts]\<rparr>)
      | Responded r \<Rightarrow>
          if \<not> ok r then (Inl (Error (body_text r)), s\<lparr>sent := sent s @ [make_request e E opts]\<rparr>)
          else (case body_json r of
                  None \<Rightarrow> (Inl SyntaxError, s\<lparr>sent := sent s @ [make_request e E opts]\<rparr>)
                | Some data \<Rightarrow>
                    (Inr data, s\<lparr>sent := sent s @ [make_request e E opts],
                                 cache := (cache s)(E \<mapsto> data)\<rparr>)))"
  by (simp add: fetchData_def Let_def split: fetch_outcome.split option.split)

text \<open>A fulfilled call leaves its value in the cache; a rejected one leaves the cache alone.\<close>

lemma fetchData_result:
  "(case fst (fetchData e E opts s) of
      Inr v \<Rightarrow> cache (snd (fetchData e E opts s)) E = Some v
    | Inl err \<Rightarrow> cache (snd (fetchData e E opts s)) = cache s)"
  by (simp add: fetchData_def Let_def split: fetch_outcome.split option.split)

lemma fetchData_Inr_cache:
  assumes "fetchData e E opts s = (Inr v, s1)"
  shows "cache s1 E = Some v"
  using fetchData_result [of e E opts s] assms by simp

text \<open>No call of \<^verbatim>\<open>fetchData\<close> removes or replaces an entry.\<close>

lemma fetchData_keeps:
  assumes "cache s k = Some v"
  shows "cache (snd (fetchData e E opts s)) k = Some v"
proof (cases "k = E")
  case True
  with assms show ?thesis by (simp add: fetchData_hit)
next
  case False
  with assms show ?thesis
    by (simp add: fetchData_def Let_def split: fetch_outcome.split option.split)
qed

lemma run_call_keeps:
  "cache s E = Some v \<Longrightarrow> c \<noteq> Clear E \<Longrightarrow> cache (run_call e c s) E = Some v"
  by (cases c) (simp_all add: fetchData_keeps clearCache_def)

lemma run_calls_keeps:
  "cache s E = Some v \<Longrightarrow> Clear E \<notin> set calls \<Longrightarrow> cache (run_calls e calls s) E = Some v"
  unfolding run_calls_def
proof (induction calls arbitrary: s)
  case Nil
  then show ?case by simp
next
  case (Cons c calls)
  from Cons.prems have "cache (run_call e c s) E = Some v"
    by (intro run_call_keeps) auto
  with Cons show ?case by simp
qed

text \<open>
  Claim C1. Once \<^verbatim>\<open>fetchData(E)\<close> has fulfilled with a value \<open>v\<close>, then after any awaited
  calls of the same instance among which there is no \<^verbatim>\<open>clearCache(E)\<close>, a call
  \<^verbatim>\<open>fetchData(E, opts)\<close> with whatever options (method and body included) fulfils with
  the same \<open>v\<close> and leaves the state as it was: nothing is handed to \<^verbatim>\<open>fetch\<close>.
\<close>

theorem fetchData_twice:
  assumes "fetchData e E opts1 s = (Inr v, s1)"
    and "Clear E \<notin> set calls"
    and "s2 = run_calls e calls s1"
  shows "fetchData e E opts2 s2 = (Inr v, s2) \<and> sent (snd (fetchData e E opts2 s2)) = sent s2"
proof -
  from assms(1) have "cache s1 E = Some v" by (rule fetchData_Inr_cache)
  with assms(2,3) have "cache s2 E = Some v" by (simp add: run_calls_keeps)
  then have "fetchData e E opts2 s2 = (Inr v, s2)" by (rule fetchData_hit)
  then show ?thesis by simp
qed

text \<open>
  On the sample server: \<^verbatim>\<open>blogs\<close> is fetched, then \<^verbatim>\<open>authors\<close> is fetched and cleared, then
  \<^verbatim>\<open>blogs\<close> is asked for again with method DELETE. Two requests went out in all.
\<close>

theorem fetchData_twice_witness:
  "fst (fetchData sample_env ''blogs'' no_options list_init) = Inr (JObj [(''data'', JArr [sample_post])])
   \<and> Clear ''blogs'' \<notin> set [Fetch ''authors'' no_options, Clear ''authors'']
   \<and> fetchData sample_env ''blogs'' delete_options
        (run_calls sample_env [Fetch ''authors'' no_options, Clear ''authors'']
           (snd (fetchData sample_env ''blogs'' no_options list_init)))
      = (Inr (JObj [(''data'', JArr [sample_post])]),
         run_calls sample_env [Fetch ''authors'' no_options, Clear ''authors'']
           (snd (fetchData sample_env ''blogs'' no_options list_init)))
   \<and> map url (sent (run_calls sample_env [Fetch ''authors'' no_options, Clear ''authors'']
           (snd (fetchData sample_env ''blogs'' no_options list_init)))) = [''/api/blogs'', ''/api/authors'']"
proof -
  let ?s1 = "snd (fetchData sample_env ''blogs'' no_options list_init)"
  let ?v = "JObj [(''data'', JArr [sample_post])]"
  have a: "fst (fetchData sample_env ''blogs'' no_options list_init) = Inr ?v"
    by (simp add: api_defs sample_defs)
  then have b: "fetchData sample_env ''blogs'' no_options list_init = (Inr ?v, ?s1)"
    by (simp add: prod_eq_iff)
  have c: "Clear ''blogs'' \<notin> set [Fetch ''authors'' no_options, Clear ''authors'']"
    by simp
  have d: "map url (sent (run_calls sample_env [Fetch ''authors'' no_options, Clear ''authors''] ?s1))
       = [''/api/blogs'', ''/api/authors'']"
    by (simp add: run_calls_def api_defs sample_defs)
  from fetchData_twice [OF b c refl, of delete_options] a c d show ?thesis
    by simp
qed

text \<open>
  Claim C5. \<^verbatim>\<open>clearCache(E)\<close> removes the entry of \<open>E\<close> whatever the cache held, touches no
  other entry and sends nothing; clearing twice is clearing once, and clearing a key that
  has no entry changes nothing. A \<^verbatim>\<open>fetchData(E)\<close> right after it hands exactly one request
  for \<open>E\<close> to \<^verbatim>\<open>fetch\<close>, whatever the cache held before.
\<close>

theorem clearCache_then_fetch:
  "cache (clearCache E s) E = None
   \<and> (\<forall>k. k \<noteq> E \<longrightarrow> cache (clearCache E s) k = cache s k)
   \<and> sent (clearCache E s) = sent s
   \<and> clearCache E (clearCache E s) = clearCache E s
   \<and> (cache s E = None \<longrightarrow> clearCache E s = s)
   \<and> sent (snd (fetchData e E opts (clearCache E s))) = sent s @ [make_request e E opts]"
proof -
  have "cache (clearCache E s) E = None" by (simp add: clearCache_def)
  then have "sent (snd (fetchData e E opts (clearCache E s))) = sent (clearCache E s) @ [make_request e E opts]"
    by (simp add: fetchData_miss split: fetch_outcome.split option.split)
  moreover have "cache s E = None \<longrightarrow> clearCache E s = s"
    by (simp add: clearCache_def fun_upd_idem)
  ultimately show ?thesis by (simp add: clearCache_def)
qed

text \<open>
  On the sample server: with \<^verbatim>\<open>blogs\<close> cached, clearing it and fetching it again sends a
  second request; clearing the empty initial cache changes nothing.
\<close>

theorem clearCache_then_fetch_witness:
  "cache (clearCache ''blogs'' (snd (fetchData sample_env ''blogs'' no_options list_init))) ''blogs'' = None
   \<and> cache (snd (fetchData sample_env ''blogs'' no_options list_init)) ''blogs''
       = Some (JObj [(''data'', JArr [sample_post])])
   \<and> cache list_init ''blogs'' = None \<and> clearCache ''blogs'' list_init = list_init
   \<and> map url (sent (snd (fetchData sample_env ''blogs'' no_options
        (clearCache ''blogs'' (snd (fetchData sample_env ''blogs'' no_options list_init))))))
      = [''/api/blogs'', ''/api/blogs'']"
proof -
  let ?s1 = "snd (fetchData sample_env ''blogs'' no_options list_init)"
  have a: "cache ?s1 ''blogs'' = Some (JObj [(''data'', JArr [sample_post])])"
    by (simp add: api_defs sample_defs)
  have b: "cache list_init ''blogs'' = None" by (simp add: list_init_def)
  have c: "map url (sent ?s1) = [''/api/blogs'']" by (simp add: api_defs sample_defs)
  have d: "url (make_request sample_env ''blogs'' no_options) = ''/api/blogs''"
    by (simp add: api_defs sample_defs)
  from clearCache_then_fetch [of "''blogs''" ?s1 sample_env no_options]
       clearCache_then_fetch [of "''blogs''" list_init sample_env no_options] a b c d
  show ?thesis by simp
qed

text \<open>
  Claim C6. When the request of \<^verbatim>\<open>fetchData(E)\<close> is answered with a status that is not a
  success, the promise rejects with an \<^verbatim>\<open>Error\<close> whose message is the text of the body;
  the request was sent once and no second one follows; the cache is as it was, with no
  entry for \<open>E\<close>.
\<close>

theorem fetchData_not_ok:
  assumes "cache s E = None"
    and "fetch e (sent s) (make_request e E opts) = Responded r"
    and "\<not> ok r"
  shows "fetchData e E opts s = (Inl (Error (body_text r)), s\<lparr>sent := sent s @ [make_request e E opts]\<rparr>)
         \<and> cache (snd (fetchData e E opts s)) = cache s
         \<and> cache (snd (fetchData e E opts s)) E = None"
  using assms by (simp add: fetchData_miss)

theorem fetchData_not_ok_witness:
  "cache list_init ''blogs'' = None
   \<and> fetch failing_env (sent list_init) (make_request failing_env ''blogs'' no_options)
       = Responded \<lparr>ok = False, body_text = ''Server Error'', body_json = None\<rparr>
   \<and> fst (fetchData failing_env ''blogs'' no_options list_init) = Inl (Error ''Server Error'')
   \<and> map url (sent (snd (fetchData failing_env ''blogs'' no_options list_init))) = [''/api/blogs'']
   \<and> cache (snd (fetchData failing_env ''blogs'' no_options list_init)) ''blogs'' = None"
proof -
  have a: "cache list_init ''blogs'' = None" by (simp add: list_init_def)
  have b: "fetch failing_env (sent list_init) (make_request failing_env ''blogs'' no_options)
       = Responded \<lparr>ok = False, body_text = ''Server Error'', body_json = None\<rparr>"
    by (simp add: sample_defs)
  have c: "\<not> ok \<lparr>ok = False, body_text = ''Server Error'', body_json = None\<rparr>" by simp
  have d: "url (make_request failing_env ''blogs'' no_options) = ''/api/blogs''"
    by (simp add: api_defs sample_defs)
  have e: "sent list_init = []" by (simp add: list_init_def)
  from fetchData_not_ok [OF a b c] a b d e show ?thesis by simp
qed

section \<open>Properties of the list view\<close>

lemma fetchData_list_frame:
  "blogPosts (snd (fetchData e E opts s)) = blogPosts s"
  "console (snd (fetchData e E opts s)) = console s"
  "isLoading (snd (fetchData e E opts s)) = isLoading s"
  "isDeleting (snd (fetchData e E opts s)) = isDeleting s"
  "showConfirmModal (snd (fetchData e E opts s)) = showConfirmModal s"
  "postToDelete (snd (fetchData e E opts s)) = postToDelete s"
  "selectedStatus (snd (fetchData e E opts s)) = selectedStatus s"
  by (simp_all add: fetchData_def Let_def split: fetch_outcome.split option.split)

lemma fetchData_sent_miss:
  "cache s E = None \<Longrightarrow> sent (snd (fetchData e E opts s)) = sent s @ [make_request e E opts]"
  by (simp add: fetchData_miss split: fetch_outcome.split option.split)





lemma proceedDelete_unfold:
  "pending_target st = Some pid \<Longrightarrow>
   proceedDelete e st =
     (case fst (fetchData e (''blogs/'' @ number_string e pid) delete_options (st\<lparr>isDeleting := True\<rparr>)) of
        Inl err \<Rightarrow>
          (snd (fetchData e (''blogs/'' @ number_string e pid) delete_options (st\<lparr>isDeleting := True\<rparr>)))
            \<lparr>console := console st @ [(''Failed to delete the post:'', err)], isDeleting := False\<rparr>
      | Inr v \<Rightarrow>
          (fetchBlogPosts e (clearCache ''blogs''
             (snd (fetchData e (''blogs/'' @ number_string e pid) delete_options (st\<lparr>isDeleting := True\<rparr>)))))
            \<lparr>showConfirmModal := False, postToDelete := None, isDeleting := False\<rparr>)"
  by (simp add: proceedDelete_def split_beta Let_def fetchData_list_frame split: sum.split)

lemma proceedDelete_nothing_pending:
  "pending_target st = None \<Longrightarrow> proceedDelete e st = st"
  by (simp add: proceedDelete_def)

lemma decimal_5: "decimal 5 = ''5''"
  by (simp add: decimal_def digits.simps)

text \<open>
  Claim C3, as the spec states it, fails: when the DELETE is refused, \<^verbatim>\<open>proceedDelete\<close> ends
  with the confirmation modal still shown and the target still pending. Here post 5 is
  marked for deletion and the server fails the request.
\<close>

theorem proceedDelete_failure_counterexample:
  "pending_target (confirmDelete 5 list_init) = Some 5
   \<and> showConfirmModal (proceedDelete failing_env (confirmDelete 5 list_init))
   \<and> postToDelete (proceedDelete failing_env (confirmDelete 5 list_init)) = Some 5
   \<and> \<not> (\<not> showConfirmModal (proceedDelete failing_env (confirmDelete 5 list_init))
         \<and> postToDelete (proceedDelete failing_env (confirmDelete 5 list_init)) = None)"
  by (simp add: proceedDelete_def pending_target_def confirmDelete_def decimal_5 api_defs sample_defs)

text \<open>
  Claim C3, amended. With a target pending (\<^verbatim>\<open>postToDelete\<close> neither \<^verbatim>\<open>null\<close> nor 0),
  \<^verbatim>\<open>proceedDelete\<close> ends with \<^verbatim>\<open>isDeleting\<close> false whether the DELETE call fulfils or rejects.
  When it fulfils, the modal is hidden and the target cleared. When it rejects, the error
  is logged, and the modal, the target and the posts stay as they were.
\<close>

theorem proceedDelete_outcome:
  assumes "pending_target st = Some pid"
  shows "\<not> isDeleting (proceedDelete e st)
    \<and> (\<forall>v. fst (fetchData e (''blogs/'' @ number_string e pid) delete_options (st\<lparr>isDeleting := True\<rparr>)) = Inr v \<longrightarrow>
          \<not> showConfirmModal (proceedDelete e st) \<and> postToDelete (proceedDelete e st) = None)
    \<and> (\<forall>err. fst (fetchData e (''blogs/'' @ number_string e pid) delete_options (st\<lparr>isDeleting := True\<rparr>)) = Inl err \<longrightarrow>
          showConfirmModal (proceedDelete e st) = showConfirmModal st
          \<and> postToDelete (proceedDelete e st) = postToDelete st
          \<and> blogPosts (proceedDelete e st) = blogPosts st
          \<and> console (proceedDelete e st) = console st @ [(''Failed to delete the post:'', err)])"
proof -
  let ?r = "fst (fetchData e (''blogs/'' @ number_string e pid) delete_options (st\<lparr>isDeleting := True\<rparr>))"
  have 1: "\<not> isDeleting (proceedDelete e st)"
    by (simp add: proceedDelete_unfold [OF assms] split: sum.split)
  have 2: "\<not> showConfirmModal (proceedDelete e st) \<and> postToDelete (proceedDelete e st) = None"
    if "?r = Inr v" for v
    using that by (simp add: proceedDelete_unfold [OF assms])
  have 3: "showConfirmModal (proceedDelete e st) = showConfirmModal st
          \<and> postToDelete (proceedDelete e st) = postToDelete st
          \<and> blogPosts (proceedDelete e st) = blogPosts st
          \<and> console (proceedDelete e st) = console st @ [(''Failed to delete the post:'', err)]"
    if "?r = Inl err" for err
    using that by (simp add: proceedDelete_unfold [OF assms] fetchData_list_frame)
  from 1 2 3 show ?thesis by blast
qed

text \<open>Post 5 marked for deletion, on the sample server and on the failing one.\<close>

theorem proceedDelete_outcome_witness:
  "pending_target (confirmDelete 5 list_init) = Some 5
   \<and> \<not> isDeleting (proceedDelete sample_env (confirmDelete 5 list_init))
   \<and> \<not> showConfirmModal (proceedDelete sample_env (confirmDelete 5 list_init))
   \<and> postToDelete (proceedDelete sample_env (confirmDelete 5 list_init)) = None
   \<and> \<not> isDeleting (proceedDelete failing_env (confirmDelete 5 list_init))
   \<and> showConfirmModal (proceedDelete failing_env (confirmDelete 5 list_init))
   \<and> postToDelete (proceedDelete failing_env (confirmDelete 5 list_init)) = Some 5
   \<and> console (proceedDelete failing_env (confirmDelete 5 list_init))
       = [(''Failed to delete the post:'', Error ''Server Error'')]"
proof -
  let ?st = "confirmDelete 5 list_init"
  have a: "pending_target ?st = Some 5"
    by (simp add: pending_target_def confirmDelete_def)
  have b: "fst (fetchData sample_env (''blogs/'' @ number_string sample_env 5) delete_options (?st\<lparr>isDeleting := True\<rparr>))
        = Inr sample_post"
    by (simp add: confirmDelete_def decimal_5 api_defs sample_defs)
  have c: "fst (fetchData failing_env (''blogs/'' @ number_string failing_env 5) delete_options (?st\<lparr>isDeleting := True\<rparr>))
        = Inl (Error ''Server Error'')"
    by (simp add: confirmDelete_def decimal_5 api_defs sample_defs)
  have d: "showConfirmModal ?st" "postToDelete ?st = Some 5" "console ?st = []"
    by (simp_all add: confirmDelete_def list_init_def)
  from proceedDelete_outcome [OF a, of sample_env] proceedDelete_outcome [OF a, of failing_env] a b c d
  show ?thesis by simp
qed

text \<open>
  Claim C10. For a maximum length that is not negative, \<^verbatim>\<open>truncateContent\<close> returns the
  string itself when it has at most that many code units, and otherwise its first
  \<open>maxLength\<close> code units followed by three dots; left out, the maximum is 100.
\<close>

theorem truncateContent_spec:
  "(0 \<le> maxLength \<longrightarrow>
      truncateContent c maxLength =
        (if length c \<le> nat maxLength then c
         else take (nat maxLength) c @ ''...''))
   \<and> truncateContent_default c =
        (if length c \<le> 100 then c else take 100 c @ ''...'')
   \<and> truncateContent ''hello'' 10 = ''hello''
   \<and> truncateContent ''0123456789X'' 10 = ''0123456789...''"
  by (auto simp add: truncateContent_def truncateContent_default_def slice0_def)

theorem truncateContent_spec_witness:
  "(0::int) \<le> 3 \<and> truncateContent ''abcdef'' 3 = ''abc...'' \<and> truncateContent ''abc'' 3 = ''abc''
   \<and> truncateContent_default ''short'' = ''short''"
  using truncateContent_spec [of 3 "''abcdef''"] truncateContent_spec [of 3 "''abc''"]
    truncateContent_spec [of 3 "''short''"]
  by simp

text \<open>
  A negative \<^verbatim>\<open>maxLength\<close> is no length: \<^verbatim>\<open>slice\<close> then drops that many code units from the
  end instead.
\<close>

lemma truncateContent_negative:
  "maxLength < 0 \<Longrightarrow>
   truncateContent c maxLength = take (nat (int (length c) + maxLength)) c @ ''...''"
  by (simp add: truncateContent_def slice0_def)

lemma status_of_post_json:
  "get_prop (post_json p) ''status'' = Inr (JStr (status_name (post_status p)))"
  by (simp add: post_json_def)

lemma status_name_inject: "(status_name a = status_name b) = (a = b)"
  by (cases a; cases b) simp_all

lemma filter_status_posts:
  "filter_status (status_name S) (map post_json ps)
     = Inr (map post_json (filter (\<lambda>p. post_status p = S) ps))"
  by (induction ps) (simp_all add: status_of_post_json status_name_inject)

text \<open>
  Claim C9. With the filter on \<^verbatim>\<open>all\<close> the view is the stored \<^verbatim>\<open>blogPosts\<close> itself. With the
  filter on the name of a status \<open>S\<close> and a list of posts stored, the view holds exactly the
  posts of status \<open>S\<close>, in the order they have in the list. The view is computed from the
  state and returns no state: \<^verbatim>\<open>blogPosts\<close> is not written.
\<close>

theorem filteredBlogPosts_view:
  "(selectedStatus st = ''all'' \<longrightarrow> filteredBlogPosts st = Inr (blogPosts st))
   \<and> (blogPosts st = JArr (map post_json ps) \<and> selectedStatus st = status_name S \<longrightarrow>
        filteredBlogPosts st = Inr (JArr (map post_json (filter (\<lambda>p. post_status p = S) ps))))
   \<and> subseq (filter (\<lambda>p. post_status p = S) ps) ps"
proof -
  have "status_name S \<noteq> ''all''" by (cases S) simp_all
  then show ?thesis
    by (simp add: filteredBlogPosts_def filter_status_posts)
qed

theorem filteredBlogPosts_view_witness:
  "selectedStatus list_init = ''all''
   \<and> filteredBlogPosts list_init = Inr (JArr [])
   \<and> filteredBlogPosts (list_init\<lparr>blogPosts := JArr (map post_json sample_posts),
                                    selectedStatus := ''published''\<rparr>)
       = Inr (JArr (map post_json [sample_posts ! 0, sample_posts ! 2]))
   \<and> filteredBlogPosts (list_init\<lparr>blogPosts := JArr (map post_json sample_posts),
                                    selectedStatus := ''unpublished''\<rparr>)
       = Inr (JArr (map post_json [sample_posts ! 1]))"
proof -
  let ?st = "\<lambda>sel. list_init\<lparr>blogPosts := JArr (map post_json sample_posts), selectedStatus := sel\<rparr>"
  have a: "selectedStatus list_init = ''all''" "blogPosts list_init = JArr []"
    by (simp_all add: list_init_def)
  have b: "blogPosts (?st ''published'') = JArr (map post_json sample_posts)
           \<and> selectedStatus (?st ''published'') = status_name Published"
    by simp
  have c: "blogPosts (?st ''unpublished'') = JArr (map post_json sample_posts)
           \<and> selectedStatus (?st ''unpublished'') = status_name Unpublished"
    by simp
  have d: "filter (\<lambda>p. post_status p = Published) sample_posts = [sample_posts ! 0, sample_posts ! 2]"
    "filter (\<lambda>p. post_status p = Unpublished) sample_posts = [sample_posts ! 1]"
    by (simp_all add: sample_posts_def)
  from filteredBlogPosts_view [of list_init] a
       filteredBlogPosts_view [of "?st ''published''" sample_posts Published] b
       filteredBlogPosts_view [of "?st ''unpublished''" sample_posts Unpublished] c d
  show ?thesis by simp
qed

section \<open>Properties of the form\<close>

lemmas form_defs = submitForm_def submit_try_def submit_catch_def response_errors_def
  submit_endpoint_def submit_options_def write_options_def payload_def authorId_def
  selectedAuthor_def isEditMode_def opt_prop_def or_else_def

text \<open>
  Claim C7. However \<^verbatim>\<open>submitForm\<close> goes (the write fulfils, the author check stops it, the
  write or anything else in the \<^verbatim>\<open>try\<close> throws), it ends with \<^verbatim>\<open>isSubmitting\<close> false and
  with no entry for \<^verbatim>\<open>blogs\<close> in the cache.
\<close>

theorem submitForm_finally:
  "isSubmitting (submitForm e st) = False \<and> cache (submitForm e st) ''blogs'' = None"
  by (simp add: submitForm_def clearCache_def Let_def)

text \<open>
  The three ways on the create page: a submission the sample server accepts, one with no
  author chosen, and one the failing server refuses.
\<close>

theorem submitForm_finally_witness:
  "navigatedTo (submitForm sample_env create_draft) = Some ''/''
   \<and> isSubmitting (submitForm sample_env create_draft) = False
   \<and> cache (submitForm sample_env create_draft) ''blogs'' = None
   \<and> errors (submitForm sample_env create_page) = [''Author is required.'']
   \<and> isSubmitting (submitForm sample_env create_page) = False
   \<and> cache (submitForm sample_env create_page) ''blogs'' = None
   \<and> errors (submitForm failing_env create_draft) = [''An unexpected error occurred. Please try again.'']
   \<and> isSubmitting (submitForm failing_env create_draft) = False
   \<and> cache (submitForm failing_env create_draft) ''blogs'' = None"
proof -
  have a: "navigatedTo (submitForm sample_env create_draft) = Some ''/''"
    by (simp add: form_defs api_defs sample_defs)
  have b: "errors (submitForm sample_env create_page) = [''Author is required.'']"
    by (simp add: form_defs api_defs sample_defs)
  have c: "errors (submitForm failing_env create_draft) = [''An unexpected error occurred. Please try again.'']"
    by (simp add: form_defs api_defs sample_defs)
  show ?thesis
    using a b c submitForm_finally [of sample_env create_draft]
      submitForm_finally [of sample_env create_page] submitForm_finally [of failing_env create_draft]
    by simp
qed

lemmas page_defs = edit_page_def edited_page_def fetchBlogPost_def fetchAuthors_def
  set_blogPost_def form_of_post_def






lemma selectedAuthor_reads:
  "selectedAuthor (st\<lparr>errors := es, isSubmitting := b\<rparr>) = selectedAuthor st"
  by (simp add: selectedAuthor_def split: jsval.split)

lemma submit_reads:
  "authorId (st\<lparr>errors := es, isSubmitting := b\<rparr>) = authorId st"
  "isEditMode (st\<lparr>errors := es, isSubmitting := b\<rparr>) = isEditMode st"
  "submit_endpoint e (st\<lparr>errors := es, isSubmitting := b\<rparr>) = submit_endpoint e st"
  "submit_options e (st\<lparr>errors := es, isSubmitting := b\<rparr>) aid = submit_options e st aid"
  by (simp_all add: authorId_def selectedAuthor_reads isEditMode_def submit_endpoint_def
        submit_options_def payload_def split: sum.split)

text \<open>\<^verbatim>\<open>submitForm\<close> once the author check has passed.\<close>

lemma submitForm_write:
  assumes "authorId st = Inr aid" "truthy aid"
  shows "submitForm e st =
     (let p = fetchData e (submit_endpoint e st) (submit_options e st aid) (st\<lparr>errors := [], isSubmitting := True\<rparr>)
      in clearCache ''blogs''
           ((case fst p of
               Inl err \<Rightarrow> (snd p)\<lparr>errors := errors (snd p) @ [''An unexpected error occurred. Please try again.'']\<rparr>
             | Inr v \<Rightarrow> (snd p)\<lparr>navigatedTo := Some ''/''\<rparr>)\<lparr>isSubmitting := False\<rparr>))"
  using assms
  by (simp add: submitForm_def submit_try_def submit_reads split_beta Let_def submit_catch_def
        response_errors_def split: sum.split)



text \<open>
  The parts of claim C4 that hold. The author looked up is the first one of the list whose
  name is the current author; without one the id of the draft's author is taken. An id
  that is falsy gives the single error and no request. An id that passes and an endpoint
  that is not cached give one request, with the method, URL and body the claim says.
\<close>

lemma find_by_name_first:
  assumes "\<forall>a \<in> set as. a \<noteq> JNull \<and> a \<noteq> JUndefined"
  shows "find_by_name cur as =
     Inr (case filter (\<lambda>a. strict_eq (opt_prop a ''name'') cur) as of [] \<Rightarrow> JUndefined | a # _ \<Rightarrow> a)"
  using assms
proof (induction as)
  case Nil
  then show ?case by simp
next
  case (Cons a as)
  then have "a \<noteq> JNull" "a \<noteq> JUndefined" by simp_all
  then have "get_prop a ''name'' = Inr (opt_prop a ''name'')"
    by (cases a) (simp_all add: opt_prop_def)
  with Cons show ?case by simp
qed

lemma submitForm_author_required:
  assumes "authorId st = Inr aid" "\<not> truthy aid"
  shows "errors (submitForm e st) = [''Author is required.'']"
    and "sent (submitForm e st) = sent st"
    and "navigatedTo (submitForm e st) = navigatedTo st"
  using assms
  by (simp_all add: submitForm_def submit_try_def submit_reads Let_def clearCache_def)

lemma submitForm_write_sent:
  assumes "authorId st = Inr aid" "truthy aid" "cache st (submit_endpoint e st) = None"
  shows "sent (submitForm e st) = sent st @ [make_request e (submit_endpoint e st) (submit_options e st aid)]"
proof -
  from assms(3) have "cache (st\<lparr>errors := [], isSubmitting := True\<rparr>) (submit_endpoint e st) = None"
    by simp
  then have "sent (snd (fetchData e (submit_endpoint e st) (submit_options e st aid)
                (st\<lparr>errors := [], isSubmitting := True\<rparr>)))
             = sent st @ [make_request e (submit_endpoint e st) (submit_options e st aid)]"
    by (simp add: fetchData_sent_miss)
  then show ?thesis
    by (simp add: submitForm_write [OF assms(1,2)] Let_def clearCache_def split: sum.split)
qed

lemma submit_request_shape:
  "url (make_request e (submit_endpoint e st) (submit_options e st aid))
     = apiUrl e @ ''/'' @ (if isEditMode st then ''blogs/'' @ to_string (number_string e) (opt_prop (blogPost st) ''id'') else ''blogs'')"
  "req_method (init (make_request e (submit_endpoint e st) (submit_options e st aid)))
     = Some (if isEditMode st then ''PUT'' else ''POST'')"
  "req_body (init (make_request e (submit_endpoint e st) (submit_options e st aid)))
     = Some (stringify e (JObj [(''title'', title (form st)), (''content'', content (form st)),
                               (''author_id'', aid), (''status'', status (form st))]))"
  by (simp_all add: make_request_def submit_endpoint_def submit_options_def write_options_def payload_def)

text \<open>
  Claim C4 says that in edit mode \<^verbatim>\<open>submitForm\<close> sends the payload with PUT to
  \<^verbatim>\<open>blogs/{id}\<close>, and so does the comment above \<^verbatim>\<open>submitForm\<close>. The code does not: on the edit
  page of post 5, with the title changed and the author resolved to id 1, \<^verbatim>\<open>submitForm\<close>
  asks for \<^verbatim>\<open>blogs/5\<close> with PUT, but the requests sent stay the two loads of the page (both
  without a method, that is GET), no error is shown and the page navigates home.
\<close>

theorem submitForm_edit_sends_nothing:
  "isEditMode edited_page
   \<and> title (form edited_page) = JStr ''Changed''
   \<and> authorId edited_page = Inr (JNum 1)
   \<and> submit_endpoint sample_env edited_page = ''blogs/5''
   \<and> req_method (submit_options sample_env edited_page (JNum 1)) = Some ''PUT''
   \<and> map url (sent edited_page) = [''/api/blogs/5'', ''/api/authors'']
   \<and> map (req_method \<circ> init) (sent edited_page) = [None, None]
   \<and> sent (submitForm sample_env edited_page) = sent edited_page
   \<and> errors (submitForm sample_env edited_page) = []
   \<and> navigatedTo (submitForm sample_env edited_page) = Some ''/''"
  by (simp add: page_defs form_defs api_defs sample_defs decimal_5)

end
